theory Spec2Isabelle
  imports Complex_Main
begin

section \<open>The playback session of \<^verbatim>\<open>main.cpp\<close>\<close>

text \<open>
  The development embeds the refactored player of \<^verbatim>\<open>src/main.cpp\<close> (the second
  translation unit of the file, from \<^verbatim>\<open>struct PlayerState\<close> on): the scanner
  \<^verbatim>\<open>ScanMusicDirectoryWorker\<close>, the sound lifecycle, the command handlers, the two
  per-frame drains and \<^verbatim>\<open>RenderUI\<close>.  Every function takes the \<^verbatim>\<open>PlayerState\<close> and
  returns the updated one.  Logging is dropped; it has no effect on the state.

  The collaborators are inputs of the model:
  \<^item> the audio engine answers \<^verbatim>\<open>ma_sound_init_from_file\<close> for a path with an
    \<open>ma_result\<close>; the model passes that answer as a function \<open>engine\<close> to every
    operation that can load a sound;
  \<^item> the file system answers the three calls of the scanner (\<^verbatim>\<open>exists\<close>,
    \<^verbatim>\<open>create_directories\<close>, the \<^verbatim>\<open>directory_iterator\<close>); each answer is either
    a value or a thrown \<^verbatim>\<open>filesystem_error\<close>.
\<close>

subsection \<open>Machine integers\<close>

text \<open>
  \<^verbatim>\<open>current_track_index\<close> is a C++ \<^verbatim>\<open>int\<close> and \<^verbatim>\<open>track_list.size()\<close> a 64-bit
  \<^verbatim>\<open>size_t\<close>.  The model keeps mathematical integers and writes the two conversions
  out: \<open>static_cast_int\<close> reduces to 32-bit two's complement, \<open>size_t_of\<close> to an
  unsigned 64-bit value (the usual arithmetic conversion of an \<^verbatim>\<open>int\<close> operand that
  meets a \<^verbatim>\<open>size_t\<close>).
\<close>

definition static_cast_int :: "int \<Rightarrow> int" where
  "static_cast_int x = (x + 2147483648) mod 4294967296 - 2147483648"

definition size_t_of :: "int \<Rightarrow> int" where
  "size_t_of x = x mod 18446744073709551616"

subsection \<open>Data\<close>

datatype ma_result = MA_SUCCESS | MA_ERROR

type_synonym engine = "string \<Rightarrow> ma_result"

text \<open>
  What the session can observe of an \<^verbatim>\<open>ma_sound\<close>: the file it streams, whether the
  engine is playing it (\<^verbatim>\<open>ma_sound_is_playing\<close>) and the volume last applied.  The
  volume is a \<^verbatim>\<open>float\<close> that is only stored and copied, never computed with.
\<close>

record ma_sound =
  sound_file :: string
  sound_started :: bool
  sound_volume :: real

text \<open>
  The shared state of \<^verbatim>\<open>std::future<std::vector<std::string>>\<close>: none
  (\<^verbatim>\<open>valid()\<close> is false), the worker still running, or ready with the worker's
  return value or with the exception it threw.
\<close>

datatype music_future = NoFuture | Running | Ready "string list" | Thrown

record PlayerState =
  sound :: ma_sound
  sound_initialized :: bool
  track_list :: "string list"
  current_track_index :: int
  is_playing :: bool
  volume :: real
  music_load_future :: music_future
  is_loading_music :: bool
  was_playing_before_async_load :: bool
  playing_song_before_async_load :: string
  track_ended_flag :: bool

text \<open>The member initialisers of \<^verbatim>\<open>struct PlayerState\<close>.\<close>

definition initial_state :: PlayerState where
  "initial_state =
     \<lparr> sound = \<lparr> sound_file = [], sound_started = False, sound_volume = 0 \<rparr>,
       sound_initialized = False,
       track_list = [],
       current_track_index = 0,
       is_playing = False,
       volume = 1,
       music_load_future = NoFuture,
       is_loading_music = False,
       was_playing_before_async_load = False,
       playing_song_before_async_load = [],
       track_ended_flag = False \<rparr>"

text \<open>
  The specification's three-valued status is not a field of the code; it is read off
  the two flags the code keeps: \<^verbatim>\<open>is_playing\<close> is Playing, otherwise a bound sound is
  Paused and no bound sound is Stopped.
\<close>

datatype PlaybackStatus = Stopped | Playing | Paused

definition status :: "PlayerState \<Rightarrow> PlaybackStatus" where
  "status state =
     (if is_playing state then Playing
      else if sound_initialized state then Paused
      else Stopped)"

subsection \<open>The scanner\<close>

text \<open>
  A call into \<^verbatim>\<open>std::filesystem\<close> returns a value or throws \<^verbatim>\<open>filesystem_error\<close>.
  An entry of the directory carries its path, the answer of \<^verbatim>\<open>is_regular_file()\<close>
  and the extension of its path.  The \<^verbatim>\<open>directory_iterator\<close> is the list of what the
  range-for sees: an entry, or an error thrown by the construction of the iterator
  (at the head) or by an increment (further on).
\<close>

datatype 'a fs_result = Returns 'a | Throws

record directory_entry =
  entry_path :: string
  entry_is_regular_file :: "bool fs_result"
  entry_extension :: string

datatype dir_step = Entry directory_entry | IterError

record filesystem =
  fs_exists :: "bool fs_result"
  fs_create_directories :: "bool fs_result"
  fs_directory_iterator :: "dir_step list"

text \<open>\<^verbatim>\<open>::tolower\<close> in the C locale: the 26 ASCII capitals move down by 32.\<close>

definition tolower :: "char \<Rightarrow> char" where
  "tolower c =
     (let n = (of_char c :: nat)
      in if 65 \<le> n \<and> n \<le> 90 then char_of (n + 32) else c)"

text \<open>
  The body of the range-for with its \<^verbatim>\<open>catch\<close>: \<open>found_tracks\<close> is the vector so
  far, \<^verbatim>\<open>push_back\<close> appends, and a thrown error leaves the loop with what was found.
\<close>

fun scan_entries :: "dir_step list \<Rightarrow> string list \<Rightarrow> string list" where
  "scan_entries [] found_tracks = found_tracks"
| "scan_entries (IterError # rest) found_tracks = found_tracks"
| "scan_entries (Entry entry # rest) found_tracks =
     (case entry_is_regular_file entry of
        Throws \<Rightarrow> found_tracks
      | Returns False \<Rightarrow> scan_entries rest found_tracks
      | Returns True \<Rightarrow>
          (let extension = map tolower (entry_extension entry)
           in if extension = ''.mp3'' \<or> extension = ''.wav''
              then scan_entries rest (found_tracks @ [entry_path entry])
              else scan_entries rest found_tracks))"

text \<open>
  \<^verbatim>\<open>ScanMusicDirectoryWorker\<close>.  The result is \<open>Inr\<close> of the returned vector, or
  \<open>Inl\<close> of the exception that leaves the function.  The call of
  \<^verbatim>\<open>std::filesystem::exists\<close> stands outside both \<^verbatim>\<open>try\<close> blocks, and this overload
  throws when the status of the path cannot be determined; \<^verbatim>\<open>create_directories\<close>
  and the loop are each inside a \<^verbatim>\<open>try\<close>.
\<close>

datatype exception = filesystem_error

definition ScanMusicDirectoryWorker :: "filesystem \<Rightarrow> exception + string list" where
  "ScanMusicDirectoryWorker fs =
     (case fs_exists fs of
        Throws \<Rightarrow> Inl filesystem_error
      | Returns True \<Rightarrow> Inr (scan_entries (fs_directory_iterator fs) [])
      | Returns False \<Rightarrow>
          (case fs_create_directories fs of
             Throws \<Rightarrow> Inr []
           | Returns created \<Rightarrow> Inr (scan_entries (fs_directory_iterator fs) [])))"

subsection \<open>Sound lifecycle\<close>

definition StopCurrentSound :: "PlayerState \<Rightarrow> PlayerState" where
  "StopCurrentSound state =
     (let state = (if sound_initialized state
                   then state\<lparr>sound := (sound state)\<lparr>sound_started := False\<rparr>\<rparr>
                   else state)
      in state\<lparr>is_playing := False\<rparr>)"

definition UninitializeCurrentSound :: "PlayerState \<Rightarrow> PlayerState" where
  "UninitializeCurrentSound state =
     (if sound_initialized state then state\<lparr>sound_initialized := False\<rparr> else state)"

text \<open>
  \<^verbatim>\<open>InitializeAndPlaySound\<close> returns its \<^verbatim>\<open>bool\<close> together with the state.  The
  index test is the source's, with \<^verbatim>\<open>static_cast<int>\<close> of the size.
\<close>

definition InitializeAndPlaySound ::
  "engine \<Rightarrow> PlayerState \<Rightarrow> int \<Rightarrow> bool \<Rightarrow> bool \<times> PlayerState" where
  "InitializeAndPlaySound eng state0 track_index_to_play start_playing =
     (let state = UninitializeCurrentSound state0
      in if track_list state = [] \<or> track_index_to_play < 0
            \<or> track_index_to_play \<ge> static_cast_int (int (length (track_list state)))
         then (False, state\<lparr>is_playing := False\<rparr>)
         else
           (let filepath = track_list state ! nat track_index_to_play
            in if eng filepath \<noteq> MA_SUCCESS
               then (False, state\<lparr>sound_initialized := False, is_playing := False\<rparr>)
               else
                 (let state = state
                        \<lparr>sound := \<lparr> sound_file = filepath, sound_started = False,
                                    sound_volume = volume state \<rparr>,
                         sound_initialized := True,
                         current_track_index := track_index_to_play\<rparr>
                  in if start_playing
                     then (True, state\<lparr>sound := (sound state)\<lparr>sound_started := True\<rparr>,
                                       is_playing := True\<rparr>)
                     else (True, state\<lparr>is_playing := False\<rparr>))))"

subsection \<open>Command handlers\<close>

definition HandlePlayPause :: "engine \<Rightarrow> PlayerState \<Rightarrow> PlayerState" where
  "HandlePlayPause eng state =
     (if track_list state = [] then state
      else if current_track_index state < 0
              \<or> current_track_index state \<ge> static_cast_int (int (length (track_list state)))
      then state
      else if is_playing state
      then (let state = (if sound_initialized state
                         then state\<lparr>sound := (sound state)\<lparr>sound_started := False\<rparr>\<rparr>
                         else state)
            in state\<lparr>is_playing := False\<rparr>)
      else if sound_initialized state \<and> \<not> sound_started (sound state)
      then state\<lparr>sound := (sound state)\<lparr>sound_started := True\<rparr>, is_playing := True\<rparr>
      else snd (InitializeAndPlaySound eng state (current_track_index state) True))"

text \<open>
  The local \<^verbatim>\<open>next_track_index\<close> of \<^verbatim>\<open>HandleNextTrack\<close>:
  \<^verbatim>\<open>(state.current_track_index + 1) % state.track_list.size()\<close>.  The sum is an
  \<^verbatim>\<open>int\<close>, converted to \<^verbatim>\<open>size_t\<close> for the remainder, and the remainder is stored in
  an \<^verbatim>\<open>int\<close>.
\<close>

definition next_track_index :: "PlayerState \<Rightarrow> int" where
  "next_track_index state =
     static_cast_int
       (size_t_of (static_cast_int (current_track_index state + 1))
          mod int (length (track_list state)))"

definition HandleNextTrack :: "engine \<Rightarrow> PlayerState \<Rightarrow> PlayerState" where
  "HandleNextTrack eng state =
     (if track_list state = [] then state
      else (let was_playing = is_playing state
            in snd (InitializeAndPlaySound eng state (next_track_index state) was_playing)))"

definition HandleVolumeChange :: "PlayerState \<Rightarrow> real \<Rightarrow> PlayerState" where
  "HandleVolumeChange state new_volume =
     (let state = state\<lparr>volume := new_volume\<rparr>
      in if sound_initialized state
         then state\<lparr>sound := (sound state)\<lparr>sound_volume := volume state\<rparr>\<rparr>
         else state)"

subsection \<open>Asynchronous refresh\<close>

definition TriggerLoadMusicFilesAsync :: "PlayerState \<Rightarrow> bool \<Rightarrow> PlayerState" where
  "TriggerLoadMusicFilesAsync state0 is_initial_load =
     (if is_loading_music state0 then state0
      else
        (let state = state0\<lparr>is_loading_music := True\<rparr>;
             state =
               (if \<not> is_initial_load
                then
                  (let state = state\<lparr>was_playing_before_async_load := is_playing state\<rparr>;
                       state =
                         (if track_list state \<noteq> [] \<and> current_track_index state \<ge> 0
                             \<and> current_track_index state
                                 < static_cast_int (int (length (track_list state)))
                          then state\<lparr>playing_song_before_async_load :=
                                        track_list state ! nat (current_track_index state)\<rparr>
                          else state\<lparr>playing_song_before_async_load := []\<rparr>);
                       state =
                         (if sound_initialized state
                          then state\<lparr>sound := (sound state)\<lparr>sound_started := False\<rparr>,
                                     sound_initialized := False\<rparr>
                          else state)
                   in state\<lparr>is_playing := False\<rparr>)
                else state)
         in state\<lparr>music_load_future := Running\<rparr>))"

text \<open>
  \<^verbatim>\<open>std::find\<close> followed by \<^verbatim>\<open>std::distance\<close>: the position of the first element
  equal to the value, \<open>None\<close> for \<^verbatim>\<open>end()\<close>.
\<close>

fun std_find :: "string list \<Rightarrow> string \<Rightarrow> nat option" where
  "std_find [] x = None"
| "std_find (y # ys) x = (if y = x then Some 0 else map_option Suc (std_find ys x))"

text \<open>
  \<^verbatim>\<open>ProcessAsyncMusicLoadCompletion\<close>.  \<^verbatim>\<open>get()\<close> hands the vector over or rethrows
  the worker's exception, which the \<^verbatim>\<open>catch\<close> answers with \<^verbatim>\<open>track_list.clear()\<close>;
  either way the future has no shared state afterwards.
\<close>

definition ProcessAsyncMusicLoadCompletion :: "engine \<Rightarrow> PlayerState \<Rightarrow> PlayerState" where
  "ProcessAsyncMusicLoadCompletion eng state0 =
     (if is_loading_music state0 \<and> music_load_future state0 \<noteq> NoFuture
      then
        (if music_load_future state0 = Running then state0
         else
           (let state = state0
                  \<lparr>track_list := (case music_load_future state0 of
                                    Ready tracks \<Rightarrow> tracks | _ \<Rightarrow> []),
                   music_load_future := NoFuture\<rparr>;
                state = state\<lparr>current_track_index := 0, is_playing := False\<rparr>;
                state =
                  (if was_playing_before_async_load state
                      \<and> playing_song_before_async_load state \<noteq> []
                   then
                     (case std_find (track_list state) (playing_song_before_async_load state) of
                        Some new_index \<Rightarrow>
                          snd (InitializeAndPlaySound eng state
                                 (static_cast_int (int new_index)) True)
                      | None \<Rightarrow> state)
                   else state)
            in state\<lparr>was_playing_before_async_load := False,
                     playing_song_before_async_load := [],
                     is_loading_music := False\<rparr>))
      else state0)"

subsection \<open>Engine events\<close>

text \<open>
  \<^verbatim>\<open>sound_end_callback\<close> runs on the engine's thread with \<^verbatim>\<open>pUserData = &state\<close>
  and stores \<^verbatim>\<open>true\<close> in the flag.  \<^verbatim>\<open>ProcessAudioEvents\<close> reads and clears the flag
  with one \<^verbatim>\<open>exchange(false)\<close>.
\<close>

definition sound_end_callback :: "PlayerState \<Rightarrow> PlayerState" where
  "sound_end_callback state = state\<lparr>track_ended_flag := True\<rparr>"

definition ProcessAudioEvents :: "engine \<Rightarrow> PlayerState \<Rightarrow> PlayerState" where
  "ProcessAudioEvents eng state0 =
     (let was_set = track_ended_flag state0;
          state = state0\<lparr>track_ended_flag := False\<rparr>
      in if was_set
         then (if is_playing state then HandleNextTrack eng state else state)
         else state)"

subsection \<open>Rendering and the main loop\<close>

text \<open>
  What the user did in a frame.  A button inside \<^verbatim>\<open>BeginDisabled\<close> never reports a
  click, so the refresh button is dead while a scan is in flight; the three other
  controls are drawn only for a non-empty list and a valid index.
\<close>

record ui_input =
  refresh_clicked :: bool
  play_pause_clicked :: bool
  next_clicked :: bool
  volume_slider :: "real option"

definition RenderUI :: "engine \<Rightarrow> ui_input \<Rightarrow> PlayerState \<Rightarrow> PlayerState" where
  "RenderUI eng ui state0 =
     (let state = (if refresh_clicked ui \<and> \<not> is_loading_music state0
                   then TriggerLoadMusicFilesAsync state0 False
                   else state0)
      in if track_list state \<noteq> []
         then
           (let state =
                  (if current_track_index state < 0
                      \<or> current_track_index state
                          \<ge> static_cast_int (int (length (track_list state)))
                   then
                     (let state = state\<lparr>current_track_index := 0\<rparr>;
                          state = (if is_playing state then StopCurrentSound state else state)
                      in UninitializeCurrentSound state)
                   else state)
            in if current_track_index state \<ge> 0
                  \<and> current_track_index state
                      < static_cast_int (int (length (track_list state)))
               then
                 (let state = (if play_pause_clicked ui
                               then HandlePlayPause eng state else state);
                      state = (if next_clicked ui then HandleNextTrack eng state else state)
                  in case volume_slider ui of
                       Some current_volume \<Rightarrow> HandleVolumeChange state current_volume
                     | None \<Rightarrow> state)
               else state)
         else state)"

text \<open>One iteration of the loop of \<^verbatim>\<open>main\<close>, and the state \<^verbatim>\<open>main\<close> enters it with.\<close>

definition main_loop_tick :: "engine \<Rightarrow> ui_input \<Rightarrow> PlayerState \<Rightarrow> PlayerState" where
  "main_loop_tick eng ui state =
     RenderUI eng ui (ProcessAudioEvents eng (ProcessAsyncMusicLoadCompletion eng state))"

definition main_startup :: PlayerState where
  "main_startup = TriggerLoadMusicFilesAsync initial_state True"

subsection \<open>Everything that can happen to a session\<close>

text \<open>
  Besides the calls of the control thread, two other timelines touch the state: the
  worker finishes its scan of some file system, and the engine's thread stops a sound
  at its end and runs the end callback.  A session is any list of these events applied
  to \<open>main_startup\<close>.  The handlers may be called in any state, which covers the
  frames \<open>RenderUI\<close> can produce and more.
\<close>

definition scan_finishes :: "filesystem \<Rightarrow> PlayerState \<Rightarrow> PlayerState" where
  "scan_finishes fs state =
     (if music_load_future state = Running
      then state\<lparr>music_load_future :=
                   (case ScanMusicDirectoryWorker fs of
                      Inr tracks \<Rightarrow> Ready tracks
                    | Inl e \<Rightarrow> Thrown)\<rparr>
      else state)"

definition engine_stops_sound :: "PlayerState \<Rightarrow> PlayerState" where
  "engine_stops_sound state =
     (if sound_initialized state
      then state\<lparr>sound := (sound state)\<lparr>sound_started := False\<rparr>\<rparr>
      else state)"

datatype event =
    PlayPauseClicked engine
  | NextClicked engine
  | VolumeChanged real
  | RefreshRequested
  | PollCompletion engine
  | PollAudio engine
  | Rendered engine ui_input
  | Tick engine ui_input
  | ScanFinished filesystem
  | SoundStopped
  | EndCallback

fun step :: "event \<Rightarrow> PlayerState \<Rightarrow> PlayerState" where
  "step (PlayPauseClicked eng) state = HandlePlayPause eng state"
| "step (NextClicked eng) state = HandleNextTrack eng state"
| "step (VolumeChanged v) state = HandleVolumeChange state v"
| "step RefreshRequested state = TriggerLoadMusicFilesAsync state False"
| "step (PollCompletion eng) state = ProcessAsyncMusicLoadCompletion eng state"
| "step (PollAudio eng) state = ProcessAudioEvents eng state"
| "step (Rendered eng ui) state = RenderUI eng ui state"
| "step (Tick eng ui) state = main_loop_tick eng ui state"
| "step (ScanFinished fs) state = scan_finishes fs state"
| "step SoundStopped state = engine_stops_sound state"
| "step EndCallback state = sound_end_callback state"

definition run :: "event list \<Rightarrow> PlayerState \<Rightarrow> PlayerState" where
  "run events state = fold step events state"

subsection \<open>Notions used in the statements\<close>

text \<open>
  The entries the scanner is meant to keep: regular files whose extension equals
  \<^verbatim>\<open>.mp3\<close> or \<^verbatim>\<open>.wav\<close> when case is ignored.
\<close>

definition equal_ignoring_case :: "string \<Rightarrow> string \<Rightarrow> bool" where
  "equal_ignoring_case a b \<longleftrightarrow> map tolower a = map tolower b"

definition playable :: "directory_entry \<Rightarrow> bool" where
  "playable entry \<longleftrightarrow>
     entry_is_regular_file entry = Returns True
     \<and> (equal_ignoring_case (entry_extension entry) ''.mp3''
        \<or> equal_ignoring_case (entry_extension entry) ''.wav'')"

text \<open>An entry whose \<^verbatim>\<open>is_regular_file()\<close> answers rather than throws.\<close>

definition readable :: "directory_entry \<Rightarrow> bool" where
  "readable entry \<longleftrightarrow> entry_is_regular_file entry \<noteq> Throws"

text \<open>The catalog length fits an \<^verbatim>\<open>int\<close>, as every \<^verbatim>\<open>static_cast<int>\<close> of it presumes.\<close>

definition fits_int :: "string list \<Rightarrow> bool" where
  "fits_int tracks \<longleftrightarrow> int (length tracks) < 2147483648"

text \<open>
  The events that poll for the end of a scan.  While the worker is still running such
  a poll changes nothing (\<open>ProcessAsyncMusicLoadCompletion\<close> returns its argument),
  and the rest of a tick is a \<open>PollAudio\<close> followed by a \<open>Rendered\<close>.
\<close>

fun polls :: "event \<Rightarrow> bool" where
  "polls (PollCompletion eng) = True"
| "polls (Tick eng ui) = True"
| "polls ev = False"

text \<open>
  What holds of the session while the startup scan has not been applied: the scan is
  in flight, the catalog is still empty, nothing plays or is bound, and nothing was
  captured.
\<close>

definition initial_load_pending :: "PlayerState \<Rightarrow> bool" where
  "initial_load_pending state \<longleftrightarrow>
     is_loading_music state \<and> music_load_future state \<noteq> NoFuture
     \<and> track_list state = [] \<and> current_track_index state = 0
     \<and> \<not> is_playing state \<and> \<not> sound_initialized state
     \<and> \<not> was_playing_before_async_load state
     \<and> playing_song_before_async_load state = []"

subsection \<open>Example sessions\<close>

definition accept_all :: engine where
  "accept_all path = MA_SUCCESS"

definition reject_all :: engine where
  "reject_all path = MA_ERROR"

definition no_input :: ui_input where
  "no_input = \<lparr> refresh_clicked = False, play_pause_clicked = False,
                next_clicked = False, volume_slider = None \<rparr>"

definition example_directory :: filesystem where
  "example_directory =
     \<lparr> fs_exists = Returns True,
       fs_create_directories = Returns False,
       fs_directory_iterator =
         [Entry \<lparr> entry_path = ''./music/a.mp3'', entry_is_regular_file = Returns True,
                  entry_extension = ''.mp3'' \<rparr>,
          Entry \<lparr> entry_path = ''./music/notes.txt'', entry_is_regular_file = Returns True,
                  entry_extension = ''.txt'' \<rparr>,
          Entry \<lparr> entry_path = ''./music/live.wav'', entry_is_regular_file = Returns False,
                  entry_extension = ''.wav'' \<rparr>,
          Entry \<lparr> entry_path = ''./music/B.WAV'', entry_is_regular_file = Returns True,
                  entry_extension = ''.WAV'' \<rparr>] \<rparr>"

text \<open>After the startup scan of \<open>example_directory\<close>: two tracks, index 0, nothing loaded.\<close>

definition example_stopped :: PlayerState where
  "example_stopped =
     run [ScanFinished example_directory, PollCompletion accept_all] main_startup"

definition example_playing :: PlayerState where
  "example_playing = run [PlayPauseClicked accept_all] example_stopped"

definition example_paused :: PlayerState where
  "example_paused = run [PlayPauseClicked accept_all] example_playing"



text \<open>A directory whose status cannot be determined: \<^verbatim>\<open>exists\<close> throws.\<close>

definition example_unreadable_directory :: filesystem where
  "example_unreadable_directory =
     \<lparr> fs_exists = Throws, fs_create_directories = Throws,
       fs_directory_iterator = [IterError] \<rparr>"

text \<open>The third entry cannot be examined; a directory that cannot be created.\<close>

definition example_failing_directory :: filesystem where
  "example_failing_directory =
     \<lparr> fs_exists = Returns True,
       fs_create_directories = Returns False,
       fs_directory_iterator =
         [Entry \<lparr> entry_path = ''./music/a.mp3'', entry_is_regular_file = Returns True,
                  entry_extension = ''.mp3'' \<rparr>,
          Entry \<lparr> entry_path = ''./music/cover.jpg'', entry_is_regular_file = Returns True,
                  entry_extension = ''.jpg'' \<rparr>,
          Entry \<lparr> entry_path = ''./music/locked.mp3'', entry_is_regular_file = Throws,
                  entry_extension = ''.mp3'' \<rparr>,
          Entry \<lparr> entry_path = ''./music/z.wav'', entry_is_regular_file = Returns True,
                  entry_extension = ''.wav'' \<rparr>] \<rparr>"

definition example_missing_directory :: filesystem where
  "example_missing_directory =
     \<lparr> fs_exists = Returns False, fs_create_directories = Throws,
       fs_directory_iterator = [IterError] \<rparr>"

text \<open>Frames with one click each, and a directory without entries.\<close>

definition refresh_click :: ui_input where
  "refresh_click = no_input\<lparr>refresh_clicked := True\<rparr>"

definition play_click :: ui_input where
  "play_click = no_input\<lparr>play_pause_clicked := True\<rparr>"

definition example_empty_directory :: filesystem where
  "example_empty_directory =
     \<lparr> fs_exists = Returns True, fs_create_directories = Returns False,
       fs_directory_iterator = [] \<rparr>"

text \<open>
  Whole ticks of the main loop: the startup scan is applied, the user requests a
  refresh, presses Play in a later frame while the worker is still scanning, the
  worker finishes, and the next tick applies its result.  In the first session the
  directory has been emptied meanwhile, in the second it is as before.
\<close>

definition example_play_during_scan_emptied :: PlayerState where
  "example_play_during_scan_emptied =
     run [ScanFinished example_directory, Tick accept_all no_input,
          Tick accept_all refresh_click, Tick accept_all play_click,
          ScanFinished example_empty_directory, Tick accept_all no_input]
       main_startup"

definition example_play_during_scan :: PlayerState where
  "example_play_during_scan =
     run [ScanFinished example_directory, Tick accept_all no_input,
          Tick accept_all refresh_click, Tick accept_all play_click,
          ScanFinished example_directory, Tick accept_all no_input]
       main_startup"

text \<open>
  The first track is playing and reaches its end after the drain of the current tick;
  in the same frame the user requests a refresh, and the worker has finished when
  the next tick begins.
\<close>

definition example_stale_signal :: PlayerState where
  "example_stale_signal =
     run [SoundStopped, EndCallback, Rendered accept_all refresh_click,
          ScanFinished example_directory]
       example_playing"

section \<open>Helper facts\<close>

lemma static_cast_int_id:
  "- 2147483648 \<le> x \<Longrightarrow> x < 2147483648 \<Longrightarrow> static_cast_int x = x"
  by (simp add: static_cast_int_def)

lemma size_t_of_id: "0 \<le> x \<Longrightarrow> x < 18446744073709551616 \<Longrightarrow> size_t_of x = x"
  by (simp add: size_t_of_def)

lemma load_fails_iff:
  "\<not> fst (InitializeAndPlaySound eng s i b) \<longleftrightarrow>
     track_list s = [] \<or> i < 0 \<or> i \<ge> static_cast_int (int (length (track_list s)))
     \<or> eng (track_list s ! nat i) \<noteq> MA_SUCCESS"
  by (simp add: InitializeAndPlaySound_def UninitializeCurrentSound_def Let_def)

lemma load_failed_state:
  "\<not> fst (InitializeAndPlaySound eng s i b) \<Longrightarrow>
     snd (InitializeAndPlaySound eng s i b) = s\<lparr>sound_initialized := False, is_playing := False\<rparr>"
  by (auto simp add: InitializeAndPlaySound_def UninitializeCurrentSound_def Let_def
      split: if_splits)

lemma load_succeeded_state:
  "fst (InitializeAndPlaySound eng s i b) \<Longrightarrow>
     snd (InitializeAndPlaySound eng s i b) =
       s\<lparr>sound := \<lparr> sound_file = track_list s ! nat i, sound_started = b,
                    sound_volume = volume s \<rparr>,
         sound_initialized := True, current_track_index := i, is_playing := b\<rparr>"
  by (auto simp add: InitializeAndPlaySound_def UninitializeCurrentSound_def Let_def
      split: if_splits)

lemma load_keeps_flag [simp]:
  "track_ended_flag (snd (InitializeAndPlaySound eng s i b)) = track_ended_flag s"
  by (simp add: InitializeAndPlaySound_def UninitializeCurrentSound_def Let_def)

lemma load_keeps_track_list [simp]:
  "track_list (snd (InitializeAndPlaySound eng s i b)) = track_list s"
  by (simp add: InitializeAndPlaySound_def UninitializeCurrentSound_def Let_def)

lemma load_playing_bound:
  "is_playing (snd (InitializeAndPlaySound eng s i b)) \<Longrightarrow>
     sound_initialized (snd (InitializeAndPlaySound eng s i b))"
  by (simp add: InitializeAndPlaySound_def UninitializeCurrentSound_def Let_def
      split: if_splits)

lemma next_keeps_flag [simp]:
  "track_ended_flag (HandleNextTrack eng s) = track_ended_flag s"
  by (simp add: HandleNextTrack_def Let_def)

lemma play_pause_keeps_flag [simp]:
  "track_ended_flag (HandlePlayPause eng s) = track_ended_flag s"
  by (simp add: HandlePlayPause_def Let_def)

lemma volume_keeps_flag [simp]:
  "track_ended_flag (HandleVolumeChange s v) = track_ended_flag s"
  by (simp add: HandleVolumeChange_def Let_def)

lemma trigger_keeps_flag [simp]:
  "track_ended_flag (TriggerLoadMusicFilesAsync s b) = track_ended_flag s"
  by (simp add: TriggerLoadMusicFilesAsync_def Let_def)

lemma render_keeps_flag [simp]:
  "track_ended_flag (RenderUI eng ui s) = track_ended_flag s"
  by (simp add: RenderUI_def Let_def StopCurrentSound_def UninitializeCurrentSound_def
      split: option.split)

lemma drain_clears_flag [simp]:
  "track_ended_flag (ProcessAudioEvents eng s) = False"
  by (simp add: ProcessAudioEvents_def Let_def)

lemma completion_keeps_flag [simp]:
  "track_ended_flag (ProcessAsyncMusicLoadCompletion eng s) = track_ended_flag s"
  by (simp add: ProcessAsyncMusicLoadCompletion_def Let_def split: option.split)

lemma completion_nothing_waiting:
  "\<not> is_loading_music s \<or> music_load_future s = Running \<or> music_load_future s = NoFuture \<Longrightarrow>
     ProcessAsyncMusicLoadCompletion eng s = s"
  by (auto simp add: ProcessAsyncMusicLoadCompletion_def)

lemma render_no_input_empty:
  "track_list t = [] \<Longrightarrow> RenderUI eng no_input t = t"
  unfolding RenderUI_def Let_def by (simp add: no_input_def)

lemma render_no_input_valid:
  "0 \<le> current_track_index t \<Longrightarrow>
     current_track_index t < static_cast_int (int (length (track_list t))) \<Longrightarrow>
     RenderUI eng no_input t = t"
  unfolding RenderUI_def Let_def by (simp add: no_input_def)

lemma render_no_input:
  "track_list t = [] \<or> (0 \<le> current_track_index t
      \<and> current_track_index t < static_cast_int (int (length (track_list t)))) \<Longrightarrow>
     RenderUI eng no_input t = t"
  using render_no_input_empty render_no_input_valid by blast

lemma clear_unset_flag: "\<not> track_ended_flag t \<Longrightarrow> t\<lparr>track_ended_flag := False\<rparr> = t"
  by (cases t) simp

lemma drain_cases:
  "ProcessAudioEvents eng t =
     (if track_ended_flag t \<and> status t = Playing
      then HandleNextTrack eng (t\<lparr>track_ended_flag := False\<rparr>)
      else t\<lparr>track_ended_flag := False\<rparr>)"
  by (auto simp add: ProcessAudioEvents_def Let_def status_def)

section \<open>Properties of the session\<close>

subsection \<open>Refresh requests and track-end signals\<close>

text \<open>
  C7.  In every state in which a scan is in flight (\<open>is_loading_music\<close>), a refresh
  request changes nothing: \<open>TriggerLoadMusicFilesAsync\<close> returns the state it was given,
  whatever its \<open>is_initial_load\<close> argument, so catalog, index, status, sound and the
  captured refresh data are the same and no second scan is started; and a click on
  the disabled refresh button leaves the frame as it is without the click.
\<close>

theorem refresh_in_flight_is_noop:
  assumes "is_loading_music s"
  shows "TriggerLoadMusicFilesAsync s is_initial_load = s
         \<and> step RefreshRequested s = s
         \<and> RenderUI eng ui s = RenderUI eng (ui\<lparr>refresh_clicked := False\<rparr>) s"
  using assms by (simp add: TriggerLoadMusicFilesAsync_def RenderUI_def Let_def)

theorem refresh_in_flight_is_noop_witness:
  "is_loading_music main_startup
   \<and> TriggerLoadMusicFilesAsync main_startup False = main_startup
   \<and> step RefreshRequested main_startup = main_startup
   \<and> RenderUI accept_all (no_input\<lparr>refresh_clicked := True\<rparr>) main_startup = main_startup"
proof -
  have loading: "is_loading_music main_startup"
    by code_simp
  have idle: "RenderUI accept_all (no_input\<lparr>refresh_clicked := True, refresh_clicked := False\<rparr>) main_startup = main_startup"
    by code_simp
  show ?thesis
    using loading idle
      refresh_in_flight_is_noop [OF loading, of False accept_all "no_input\<lparr>refresh_clicked := True\<rparr>"]
    by simp
qed

text \<open>
  C5, as stated, fails for the tick: a signal raised while the session is not Playing
  can still cause an Advance.  The loop of \<open>main\<close> polls the refresh completion before
  it drains the flag, and the drain tests the status it finds then.  In
  \<open>example_stale_signal\<close> the flag is set and the status is Stopped when the tick
  begins; the completion resumes the first track, the drain then sees Playing and
  advances, and the tick ends playing the second track.  Without the flag the same
  tick ends on the first track.
\<close>

theorem stale_track_end_advances_counterexample:
  "track_ended_flag example_stale_signal
   \<and> status example_stale_signal = Stopped
   \<and> playing_song_before_async_load example_stale_signal = ''./music/a.mp3''
   \<and> status (main_loop_tick accept_all no_input example_stale_signal) = Playing
   \<and> current_track_index (main_loop_tick accept_all no_input example_stale_signal) = 1
   \<and> sound_file (sound (main_loop_tick accept_all no_input example_stale_signal))
       = ''./music/B.WAV''
   \<and> current_track_index
         (main_loop_tick accept_all no_input
            (example_stale_signal\<lparr>track_ended_flag := False\<rparr>)) = 0"
  by code_simp

text \<open>
  C5, amended.  In each tick the flag is read and cleared in one step, once, after the
  refresh completion has been polled.  If the flag was set and the status after that
  poll is Playing, the tick continues from the result of \<open>HandleNextTrack\<close>; if it was
  set while the status after that poll is Paused or Stopped, the tick continues from
  the polled state with only the flag cleared, so the signal causes no Advance and
  no track change; if it was not set, the tick continues from the polled state.  When
  no scan result is waiting the poll changes nothing and the status tested is the one
  the tick began with; a tick without user input on a session that is Paused or
  Stopped then changes nothing but the flag.  One signal is consumed by one drain:
  draining again changes nothing.
\<close>

theorem tick_drains_track_end:
  "track_ended_flag (ProcessAudioEvents eng s) = False
   \<and> ProcessAudioEvents eng' (ProcessAudioEvents eng s) = ProcessAudioEvents eng s
   \<and> (track_ended_flag s \<and> status (ProcessAsyncMusicLoadCompletion eng s) = Playing \<longrightarrow>
        main_loop_tick eng ui s =
          RenderUI eng ui
            (HandleNextTrack eng
               ((ProcessAsyncMusicLoadCompletion eng s)\<lparr>track_ended_flag := False\<rparr>)))
   \<and> (track_ended_flag s
        \<and> (status (ProcessAsyncMusicLoadCompletion eng s) = Paused
           \<or> status (ProcessAsyncMusicLoadCompletion eng s) = Stopped) \<longrightarrow>
        main_loop_tick eng ui s =
          RenderUI eng ui ((ProcessAsyncMusicLoadCompletion eng s)\<lparr>track_ended_flag := False\<rparr>))
   \<and> (\<not> track_ended_flag s \<longrightarrow>
        main_loop_tick eng ui s = RenderUI eng ui (ProcessAsyncMusicLoadCompletion eng s))
   \<and> (\<not> is_loading_music s \<or> music_load_future s = Running
        \<or> music_load_future s = NoFuture \<longrightarrow>
        (track_ended_flag s \<and> status s = Playing \<longrightarrow>
           main_loop_tick eng ui s =
             RenderUI eng ui (HandleNextTrack eng (s\<lparr>track_ended_flag := False\<rparr>)))
        \<and> (track_ended_flag s \<and> (status s = Paused \<or> status s = Stopped) \<longrightarrow>
             main_loop_tick eng ui s = RenderUI eng ui (s\<lparr>track_ended_flag := False\<rparr>)
             \<and> (track_list s = []
                  \<or> (0 \<le> current_track_index s
                     \<and> current_track_index s
                         < static_cast_int (int (length (track_list s)))) \<longrightarrow>
                  main_loop_tick eng no_input s = s\<lparr>track_ended_flag := False\<rparr>)))"
proof -
  let ?polled = "ProcessAsyncMusicLoadCompletion eng s"
  have cleared: "track_ended_flag (ProcessAudioEvents eng s) = False"
    by simp
  have again: "ProcessAudioEvents eng' (ProcessAudioEvents eng s) = ProcessAudioEvents eng s"
    using cleared by (simp add: drain_cases [of eng' "ProcessAudioEvents eng s"])
  have tick: "main_loop_tick eng ui' s =
      RenderUI eng ui'
        (if track_ended_flag s \<and> status ?polled = Playing
         then HandleNextTrack eng (?polled\<lparr>track_ended_flag := False\<rparr>)
         else ?polled\<lparr>track_ended_flag := False\<rparr>)" for ui'
    by (simp add: main_loop_tick_def drain_cases [of eng ?polled])
  have unset: "\<not> track_ended_flag s \<Longrightarrow> ?polled\<lparr>track_ended_flag := False\<rparr> = ?polled"
    by (intro clear_unset_flag) simp
  have advance: "track_ended_flag s \<and> status ?polled = Playing \<longrightarrow>
        main_loop_tick eng ui s =
          RenderUI eng ui (HandleNextTrack eng (?polled\<lparr>track_ended_flag := False\<rparr>))"
    by (simp add: tick)
  have discard: "track_ended_flag s \<and> (status ?polled = Paused \<or> status ?polled = Stopped) \<longrightarrow>
        main_loop_tick eng ui s = RenderUI eng ui (?polled\<lparr>track_ended_flag := False\<rparr>)"
    by (auto simp add: tick)
  have idle: "\<not> track_ended_flag s \<longrightarrow> main_loop_tick eng ui s = RenderUI eng ui ?polled"
  proof
    assume unset_flag: "\<not> track_ended_flag s"
    then have "main_loop_tick eng ui s
        = RenderUI eng ui (?polled\<lparr>track_ended_flag := False\<rparr>)"
      by (simp add: tick)
    then show "main_loop_tick eng ui s = RenderUI eng ui ?polled"
      by (simp only: unset [OF unset_flag])
  qed
  have quiet: "\<not> is_loading_music s \<or> music_load_future s = Running
        \<or> music_load_future s = NoFuture \<longrightarrow>
        (track_ended_flag s \<and> status s = Playing \<longrightarrow>
           main_loop_tick eng ui s =
             RenderUI eng ui (HandleNextTrack eng (s\<lparr>track_ended_flag := False\<rparr>)))
        \<and> (track_ended_flag s \<and> (status s = Paused \<or> status s = Stopped) \<longrightarrow>
             main_loop_tick eng ui s = RenderUI eng ui (s\<lparr>track_ended_flag := False\<rparr>)
             \<and> (track_list s = []
                  \<or> (0 \<le> current_track_index s
                     \<and> current_track_index s
                         < static_cast_int (int (length (track_list s)))) \<longrightarrow>
                  main_loop_tick eng no_input s = s\<lparr>track_ended_flag := False\<rparr>))"
  proof
    assume "\<not> is_loading_music s \<or> music_load_future s = Running
        \<or> music_load_future s = NoFuture"
    then have same: "?polled = s"
      by (rule completion_nothing_waiting)
    have still: "main_loop_tick eng no_input s = s\<lparr>track_ended_flag := False\<rparr>"
      if "track_ended_flag s" "status s = Paused \<or> status s = Stopped"
        "track_list s = [] \<or> (0 \<le> current_track_index s
           \<and> current_track_index s < static_cast_int (int (length (track_list s))))"
    proof -
      have "main_loop_tick eng no_input s = RenderUI eng no_input (s\<lparr>track_ended_flag := False\<rparr>)"
        using that(1,2) by (auto simp add: tick same)
      also have "\<dots> = s\<lparr>track_ended_flag := False\<rparr>"
        using that(3) by (intro render_no_input) simp
      finally show ?thesis .
    qed
    show "(track_ended_flag s \<and> status s = Playing \<longrightarrow>
           main_loop_tick eng ui s =
             RenderUI eng ui (HandleNextTrack eng (s\<lparr>track_ended_flag := False\<rparr>)))
        \<and> (track_ended_flag s \<and> (status s = Paused \<or> status s = Stopped) \<longrightarrow>
             main_loop_tick eng ui s = RenderUI eng ui (s\<lparr>track_ended_flag := False\<rparr>)
             \<and> (track_list s = []
                  \<or> (0 \<le> current_track_index s
                     \<and> current_track_index s
                         < static_cast_int (int (length (track_list s)))) \<longrightarrow>
                  main_loop_tick eng no_input s = s\<lparr>track_ended_flag := False\<rparr>))"
      using still by (auto simp add: tick same)
  qed
  show ?thesis
    by (intro conjI cleared again advance discard idle quiet)
qed

theorem tick_drains_track_end_witness:
  "track_ended_flag (sound_end_callback example_playing)
   \<and> status (sound_end_callback example_playing) = Playing
   \<and> \<not> is_loading_music (sound_end_callback example_playing)
   \<and> main_loop_tick accept_all no_input (sound_end_callback example_playing)
       = RenderUI accept_all no_input (HandleNextTrack accept_all example_playing)
   \<and> current_track_index
         (main_loop_tick accept_all no_input (sound_end_callback example_playing)) = 1
   \<and> track_ended_flag (sound_end_callback example_paused)
   \<and> status (sound_end_callback example_paused) = Paused
   \<and> \<not> is_loading_music (sound_end_callback example_paused)
   \<and> main_loop_tick accept_all no_input (sound_end_callback example_paused) = example_paused
   \<and> track_ended_flag example_stale_signal
   \<and> status (ProcessAsyncMusicLoadCompletion accept_all example_stale_signal) = Playing
   \<and> current_track_index (ProcessAsyncMusicLoadCompletion accept_all example_stale_signal) = 0
   \<and> current_track_index (main_loop_tick accept_all no_input example_stale_signal) = 1"
proof -
  let ?ended = "sound_end_callback example_playing"
  let ?paused = "sound_end_callback example_paused"
  let ?polled = "ProcessAsyncMusicLoadCompletion accept_all example_stale_signal"
  have ended: "track_ended_flag ?ended" "status ?ended = Playing" "\<not> is_loading_music ?ended"
    and ended_cleared: "?ended\<lparr>track_ended_flag := False\<rparr> = example_playing"
    and ended_after: "current_track_index
        (RenderUI accept_all no_input (HandleNextTrack accept_all example_playing)) = 1"
    by code_simp+
  have paused: "track_ended_flag ?paused" "status ?paused = Paused"
    "\<not> is_loading_music ?paused"
    and paused_index: "0 \<le> current_track_index ?paused
      \<and> current_track_index ?paused < static_cast_int (int (length (track_list ?paused)))"
    and paused_cleared: "?paused\<lparr>track_ended_flag := False\<rparr> = example_paused"
    by code_simp+
  have stale: "track_ended_flag example_stale_signal" "status ?polled = Playing"
    and stale_resumed: "current_track_index ?polled = 0"
    and stale_after: "current_track_index
        (RenderUI accept_all no_input
           (HandleNextTrack accept_all (?polled\<lparr>track_ended_flag := False\<rparr>))) = 1"
    by code_simp+
  from tick_drains_track_end [of accept_all ?ended accept_all no_input] ended
  have a: "main_loop_tick accept_all no_input ?ended
      = RenderUI accept_all no_input
          (HandleNextTrack accept_all (?ended\<lparr>track_ended_flag := False\<rparr>))"
    by blast
  from tick_drains_track_end [of accept_all ?paused accept_all no_input] paused paused_index
  have b: "main_loop_tick accept_all no_input ?paused = ?paused\<lparr>track_ended_flag := False\<rparr>"
    by blast
  from tick_drains_track_end [of accept_all example_stale_signal accept_all no_input] stale
  have c: "main_loop_tick accept_all no_input example_stale_signal
      = RenderUI accept_all no_input
          (HandleNextTrack accept_all (?polled\<lparr>track_ended_flag := False\<rparr>))"
    by blast
  show ?thesis
    using ended paused stale stale_resumed
    by (simp add: a b c ended_cleared ended_after paused_cleared stale_after)
qed

subsection \<open>Failed loads\<close>

text \<open>
  C6.  When the engine rejects the file of a load at a valid index, the load reports
  failure and leaves status Stopped with no sound bound, and the catalog is the one
  before the load, so the failing track is still in it; in particular a Next whose
  target is rejected ends Stopped with the catalog unchanged.
\<close>

theorem load_failure_falls_back_to_Stopped:
  assumes "track_list s \<noteq> []"
    and "0 \<le> i"
    and "i < static_cast_int (int (length (track_list s)))"
    and "eng (track_list s ! nat i) \<noteq> MA_SUCCESS"
  shows "\<not> fst (InitializeAndPlaySound eng s i b)
         \<and> status (snd (InitializeAndPlaySound eng s i b)) = Stopped
         \<and> \<not> sound_initialized (snd (InitializeAndPlaySound eng s i b))
         \<and> \<not> is_playing (snd (InitializeAndPlaySound eng s i b))
         \<and> track_list (snd (InitializeAndPlaySound eng s i b)) = track_list s
         \<and> (i = next_track_index s \<and> b = is_playing s \<longrightarrow>
              status (HandleNextTrack eng s) = Stopped
              \<and> track_list (HandleNextTrack eng s) = track_list s)"
  using assms
  by (auto simp add: InitializeAndPlaySound_def UninitializeCurrentSound_def HandleNextTrack_def
      Let_def status_def)

theorem load_failure_falls_back_to_Stopped_witness:
  "track_list example_playing \<noteq> []
   \<and> (0::int) \<le> 1
   \<and> 1 < static_cast_int (int (length (track_list example_playing)))
   \<and> reject_all (track_list example_playing ! nat 1) \<noteq> MA_SUCCESS
   \<and> sound_initialized example_playing
   \<and> 1 = next_track_index example_playing
   \<and> status (HandleNextTrack reject_all example_playing) = Stopped
   \<and> track_list (HandleNextTrack reject_all example_playing)
       = [''./music/a.mp3'', ''./music/B.WAV'']"
proof -
  have h1: "track_list example_playing \<noteq> []" by code_simp
  have h2: "(0::int) \<le> 1" by simp
  have h3: "1 < static_cast_int (int (length (track_list example_playing)))" by code_simp
  have h4: "reject_all (track_list example_playing ! nat 1) \<noteq> MA_SUCCESS" by code_simp
  have h5: "sound_initialized example_playing \<and> 1 = next_track_index example_playing
     \<and> is_playing example_playing
     \<and> track_list example_playing = [''./music/a.mp3'', ''./music/B.WAV'']"
    by code_simp
  show ?thesis
    using h1 h2 h3 h4 h5
      load_failure_falls_back_to_Stopped
        [where s = example_playing and i = 1 and eng = reject_all and b = True, OF h1 h2 h3 h4]
    by simp
qed

text \<open>
  C9.  A load fails exactly for an empty list, an invalid index or a file the engine
  rejects.  After any failed load the state is the state before the call with the
  sound released and \<open>is_playing\<close> false: the sound bound before is gone although
  nothing replaced it, and \<open>current_track_index\<close> has its old value.  After a failed
  Next, therefore, the next Next computes the same target index again.
\<close>

theorem failed_load_is_not_atomic:
  "(\<not> fst (InitializeAndPlaySound eng s i b) \<longleftrightarrow>
      track_list s = [] \<or> i < 0 \<or> i \<ge> static_cast_int (int (length (track_list s)))
      \<or> eng (track_list s ! nat i) \<noteq> MA_SUCCESS)
   \<and> (\<not> fst (InitializeAndPlaySound eng s i b) \<longrightarrow>
        snd (InitializeAndPlaySound eng s i b)
          = s\<lparr>sound_initialized := False, is_playing := False\<rparr>
        \<and> \<not> sound_initialized (snd (InitializeAndPlaySound eng s i b))
        \<and> current_track_index (snd (InitializeAndPlaySound eng s i b))
            = current_track_index s)
   \<and> (track_list s \<noteq> []
        \<and> \<not> fst (InitializeAndPlaySound eng s (next_track_index s) (is_playing s)) \<longrightarrow>
        \<not> sound_initialized (HandleNextTrack eng s)
        \<and> current_track_index (HandleNextTrack eng s) = current_track_index s
        \<and> next_track_index (HandleNextTrack eng s) = next_track_index s)"
proof -
  have "\<not> fst (InitializeAndPlaySound eng s j c) \<Longrightarrow>
      snd (InitializeAndPlaySound eng s j c) = s\<lparr>sound_initialized := False, is_playing := False\<rparr>"
    for j c
    by (rule load_failed_state)
  then show ?thesis
    by (auto simp add: load_fails_iff HandleNextTrack_def Let_def next_track_index_def)
qed

theorem failed_load_is_not_atomic_witness:
  "sound_initialized example_playing
   \<and> track_list example_playing \<noteq> []
   \<and> \<not> fst (InitializeAndPlaySound reject_all example_playing
              (next_track_index example_playing) (is_playing example_playing))
   \<and> \<not> sound_initialized (HandleNextTrack reject_all example_playing)
   \<and> current_track_index (HandleNextTrack reject_all example_playing) = 0
   \<and> next_track_index (HandleNextTrack reject_all example_playing) = 1
   \<and> next_track_index example_playing = 1
   \<and> \<not> fst (InitializeAndPlaySound accept_all example_playing 7 True)
   \<and> \<not> sound_initialized (snd (InitializeAndPlaySound accept_all example_playing 7 True))"
proof -
  have bound: "sound_initialized example_playing"
    and nonempty: "track_list example_playing \<noteq> []"
    and rejected: "\<not> fst (InitializeAndPlaySound reject_all example_playing
              (next_track_index example_playing) (is_playing example_playing))"
    and target: "next_track_index example_playing = 1"
    and current: "current_track_index example_playing = 0"
    and invalid: "\<not> fst (InitializeAndPlaySound accept_all example_playing 7 True)"
    by code_simp+
  from failed_load_is_not_atomic [of reject_all example_playing
        "next_track_index example_playing" "is_playing example_playing"] nonempty rejected
  have after_next: "\<not> sound_initialized (HandleNextTrack reject_all example_playing)
      \<and> current_track_index (HandleNextTrack reject_all example_playing)
          = current_track_index example_playing
      \<and> next_track_index (HandleNextTrack reject_all example_playing)
          = next_track_index example_playing"
    by blast
  from failed_load_is_not_atomic [of accept_all example_playing 7 True] invalid
  have after_invalid:
    "\<not> sound_initialized (snd (InitializeAndPlaySound accept_all example_playing 7 True))"
    by blast
  show ?thesis
    using bound nonempty rejected target current invalid after_next after_invalid by simp
qed

subsection \<open>Advance\<close>

lemma next_track_index_valid:
  assumes "track_list s \<noteq> []" and "fits_int (track_list s)"
  shows "0 \<le> next_track_index s"
    and "next_track_index s < int (length (track_list s))"
    and "next_track_index s < static_cast_int (int (length (track_list s)))"
proof -
  let ?n = "int (length (track_list s))"
  let ?r = "size_t_of (static_cast_int (current_track_index s + 1)) mod ?n"
  have n: "0 < ?n" "?n < 2147483648"
    using assms by (simp_all add: fits_int_def)
  have r: "0 \<le> ?r" "?r < ?n"
    using n by simp_all
  then have "static_cast_int ?r = ?r"
    using n by (intro static_cast_int_id) linarith+
  moreover have "static_cast_int ?n = ?n"
    using n by (intro static_cast_int_id) linarith+
  ultimately show "0 \<le> next_track_index s"
    and "next_track_index s < int (length (track_list s))"
    and "next_track_index s < static_cast_int (int (length (track_list s)))"
    using r by (simp_all add: next_track_index_def)
qed

lemma next_track_index_in_range:
  assumes "track_list s \<noteq> []"
    and "0 \<le> current_track_index s"
    and "current_track_index s < int (length (track_list s))"
    and "current_track_index s < 2147483647"
  shows "next_track_index s = (current_track_index s + 1) mod int (length (track_list s))"
proof -
  let ?n = "int (length (track_list s))"
  let ?i = "current_track_index s"
  have n: "0 < ?n"
    using assms by simp
  have "static_cast_int (?i + 1) = ?i + 1"
    using assms by (intro static_cast_int_id) linarith+
  moreover have "size_t_of (?i + 1) = ?i + 1"
    using assms by (intro size_t_of_id) linarith+
  moreover have "0 \<le> (?i + 1) mod ?n"
    using n by simp
  moreover have "(?i + 1) mod ?n \<le> ?i + 1"
    using assms by (intro zmod_le_nonneg_dividend) linarith
  then have "static_cast_int ((?i + 1) mod ?n) = (?i + 1) mod ?n"
    using assms \<open>0 \<le> (?i + 1) mod ?n\<close> by (intro static_cast_int_id) linarith+
  ultimately show ?thesis
    by (simp add: next_track_index_def)
qed

lemma fits_int_index:
  "fits_int (track_list s) \<Longrightarrow> current_track_index s < int (length (track_list s)) \<Longrightarrow>
     current_track_index s < 2147483647"
  by (simp add: fits_int_def)

lemma next_loads_target:
  assumes "track_list s \<noteq> []" and "fits_int (track_list s)"
    and "eng (track_list s ! nat (next_track_index s)) = MA_SUCCESS"
  shows "HandleNextTrack eng s =
           s\<lparr>sound := \<lparr> sound_file = track_list s ! nat (next_track_index s),
                        sound_started = is_playing s, sound_volume = volume s \<rparr>,
             sound_initialized := True,
             current_track_index := next_track_index s,
             is_playing := is_playing s\<rparr>"
proof -
  have "fst (InitializeAndPlaySound eng s (next_track_index s) (is_playing s))"
    using assms next_track_index_valid [OF assms(1,2)] load_fails_iff [of eng s "next_track_index s" "is_playing s"]
    by simp
  from load_succeeded_state [OF this] assms(1) show ?thesis
    by (simp add: HandleNextTrack_def)
qed

lemma next_repeated:
  assumes "track_list s \<noteq> []" and "fits_int (track_list s)"
    and "0 \<le> current_track_index s"
    and "current_track_index s < int (length (track_list s))"
    and "\<forall>path. eng path = MA_SUCCESS"
  shows "track_list ((HandleNextTrack eng ^^ k) s) = track_list s
         \<and> current_track_index ((HandleNextTrack eng ^^ k) s)
             = (current_track_index s + int k) mod int (length (track_list s))"
proof (induction k)
  case 0
  then show ?case using assms by simp
next
  case (Suc k)
  let ?t = "(HandleNextTrack eng ^^ k) s"
  let ?n = "int (length (track_list s))"
  have tl: "track_list ?t = track_list s"
    and ix: "current_track_index ?t = (current_track_index s + int k) mod ?n"
    using Suc.IH by simp_all
  have n: "0 < ?n" using assms(1) by simp
  have ne: "track_list ?t \<noteq> []" and fit: "fits_int (track_list ?t)"
    using tl assms by simp_all
  have lo: "0 \<le> current_track_index ?t" and hi: "current_track_index ?t < int (length (track_list ?t))"
    using ix tl n by simp_all
  have ok: "eng (track_list ?t ! nat (next_track_index ?t)) = MA_SUCCESS"
    using assms(5) by simp
  have "next_track_index ?t = (current_track_index ?t + 1) mod ?n"
    using next_track_index_in_range [OF ne lo hi fits_int_index [OF fit hi]] tl by simp
  also have "\<dots> = (current_track_index s + int (Suc k)) mod ?n"
    using ix by (simp add: mod_simps ac_simps)
  finally have nx: "next_track_index ?t = (current_track_index s + int (Suc k)) mod ?n" .
  have "HandleNextTrack eng ?t = ?t\<lparr>sound := \<lparr> sound_file = track_list ?t ! nat (next_track_index ?t),
                        sound_started = is_playing ?t, sound_volume = volume ?t \<rparr>,
             sound_initialized := True,
             current_track_index := next_track_index ?t,
             is_playing := is_playing ?t\<rparr>"
    by (rule next_loads_target [where eng = eng and s = ?t, OF ne fit ok])
  then have "track_list (HandleNextTrack eng ?t) = track_list ?t"
    and "current_track_index (HandleNextTrack eng ?t) = next_track_index ?t"
    by simp_all
  then show ?case using tl nx by simp
qed

text \<open>
  C2.  For a non-empty catalog of length \<open>n\<close> and a current index \<open>i\<close> with
  \<open>0 \<le> i < n\<close>, the index \<open>HandleNextTrack\<close> computes is \<open>(i + 1) mod n\<close>, again a
  valid index; for \<open>n = 1\<close> it is \<open>i\<close> itself, so the same track is loaded again.  When
  the engine accepts the file, that index becomes the current one and its track is
  the bound sound; with an engine that accepts every file, \<open>k\<close> Advances in a row end
  at \<open>(i + k) mod n\<close>, for every \<open>k\<close>: the list has no last state.  The index is an
  \<^verbatim>\<open>int\<close>; the one value at which \<^verbatim>\<open>i + 1\<close> overflows, \<open>2147483647\<close>, is undefined in
  C++ and excluded, and the statements about the load take a catalog whose length
  fits an \<^verbatim>\<open>int\<close>.
\<close>

theorem advance_wraps_modulo_length:
  assumes "track_list s \<noteq> []"
    and "0 \<le> current_track_index s"
    and "current_track_index s < int (length (track_list s))"
    and "current_track_index s < 2147483647"
  shows "next_track_index s = (current_track_index s + 1) mod int (length (track_list s))
         \<and> 0 \<le> next_track_index s \<and> next_track_index s < int (length (track_list s))
         \<and> (length (track_list s) = 1 \<longrightarrow> next_track_index s = current_track_index s)
         \<and> (fits_int (track_list s)
              \<and> eng (track_list s ! nat (next_track_index s)) = MA_SUCCESS \<longrightarrow>
              current_track_index (HandleNextTrack eng s)
                = (current_track_index s + 1) mod int (length (track_list s))
              \<and> sound_initialized (HandleNextTrack eng s)
              \<and> sound_file (sound (HandleNextTrack eng s))
                  = track_list s ! nat ((current_track_index s + 1) mod int (length (track_list s))))
         \<and> (fits_int (track_list s) \<and> (\<forall>path. eng path = MA_SUCCESS) \<longrightarrow>
              current_track_index ((HandleNextTrack eng ^^ k) s)
                = (current_track_index s + int k) mod int (length (track_list s)))"
proof -
  note nx = next_track_index_in_range [OF assms]
  have n: "0 < int (length (track_list s))"
    using assms(1) by simp
  have valid: "0 \<le> next_track_index s" "next_track_index s < int (length (track_list s))"
    using nx n by simp_all
  have one: "length (track_list s) = 1 \<longrightarrow> next_track_index s = current_track_index s"
    using nx assms by auto
  have loaded: "fits_int (track_list s)
              \<and> eng (track_list s ! nat (next_track_index s)) = MA_SUCCESS \<longrightarrow>
              current_track_index (HandleNextTrack eng s) = next_track_index s
              \<and> sound_initialized (HandleNextTrack eng s)
              \<and> sound_file (sound (HandleNextTrack eng s))
                  = track_list s ! nat (next_track_index s)"
  proof
    assume a: "fits_int (track_list s)
      \<and> eng (track_list s ! nat (next_track_index s)) = MA_SUCCESS"
    then have fit: "fits_int (track_list s)"
      and ok: "eng (track_list s ! nat (next_track_index s)) = MA_SUCCESS"
      by simp_all
    from next_loads_target [where eng = eng and s = s, OF assms(1) fit ok]
    show "current_track_index (HandleNextTrack eng s) = next_track_index s
              \<and> sound_initialized (HandleNextTrack eng s)
              \<and> sound_file (sound (HandleNextTrack eng s))
                  = track_list s ! nat (next_track_index s)"
      by simp
  qed
  have forever: "fits_int (track_list s) \<and> (\<forall>path. eng path = MA_SUCCESS) \<longrightarrow>
              current_track_index ((HandleNextTrack eng ^^ k) s)
                = (current_track_index s + int k) mod int (length (track_list s))"
    using next_repeated [OF assms(1) _ assms(2,3)] by blast
  show ?thesis
    using nx valid one loaded forever by simp
qed

theorem advance_wraps_modulo_length_witness:
  "track_list example_playing \<noteq> []
   \<and> 0 \<le> current_track_index example_playing
   \<and> current_track_index example_playing < int (length (track_list example_playing))
   \<and> current_track_index example_playing < 2147483647
   \<and> fits_int (track_list example_playing)
   \<and> length (track_list example_playing) = 2
   \<and> current_track_index example_playing = 0
   \<and> next_track_index example_playing = 1
   \<and> current_track_index (HandleNextTrack accept_all example_playing) = 1
   \<and> (\<forall>path. accept_all path = MA_SUCCESS)
   \<and> current_track_index ((HandleNextTrack accept_all ^^ 5) example_playing) = 1"
proof -
  have h1: "track_list example_playing \<noteq> []"
    and h2: "0 \<le> current_track_index example_playing"
    and h3: "current_track_index example_playing < int (length (track_list example_playing))"
    and h4: "current_track_index example_playing < 2147483647"
    and fit: "fits_int (track_list example_playing)"
    and len: "length (track_list example_playing) = 2"
    and cur: "current_track_index example_playing = 0"
    by code_simp+
  have ok: "\<forall>path. accept_all path = MA_SUCCESS"
    by (simp add: accept_all_def)
  show ?thesis
    using h1 h2 h3 h4 fit len cur ok
      advance_wraps_modulo_length
        [where s = example_playing and eng = accept_all and k = 5, OF h1 h2 h3 h4]
    by simp
qed

text \<open>
  C3, as stated, fails: Advance does not always start the sound and enter Playing.
  \<open>HandleNextTrack\<close> passes \<open>was_playing\<close> as \<open>start_playing\<close>, so a manual Next in a
  session that is not playing binds the next track without starting it.  In
  \<open>example_stopped\<close> (two tracks, nothing loaded) Next ends Paused.
\<close>

theorem advance_enters_Playing_counterexample:
  "track_list example_stopped \<noteq> []
   \<and> status (HandleNextTrack accept_all example_stopped) = Paused
   \<and> \<not> sound_started (sound (HandleNextTrack accept_all example_stopped))
   \<and> status (HandleNextTrack accept_all example_stopped) \<noteq> Playing"
  by code_simp

text \<open>
  C3, amended.  For a non-empty catalog whose length fits an \<^verbatim>\<open>int\<close>, when the engine
  accepts the file of the next index, Advance replaces the bound sound by a sound for
  that file at the session's volume and makes the next index the current one; the
  sound is started and the status Playing exactly when the status was Playing before,
  as it always is for the automatic Advance at the end of a track, and otherwise the
  sound is bound but not started and the status is Paused.  When the catalog is empty
  Advance changes nothing.
\<close>

theorem advance_loads_next_track:
  "(track_list s \<noteq> [] \<and> fits_int (track_list s)
      \<and> eng (track_list s ! nat (next_track_index s)) = MA_SUCCESS \<longrightarrow>
      HandleNextTrack eng s =
        s\<lparr>sound := \<lparr> sound_file = track_list s ! nat (next_track_index s),
                     sound_started = is_playing s, sound_volume = volume s \<rparr>,
          sound_initialized := True,
          current_track_index := next_track_index s\<rparr>
      \<and> status (HandleNextTrack eng s) = (if status s = Playing then Playing else Paused)
      \<and> (track_ended_flag s \<and> status s = Playing \<longrightarrow>
            status (ProcessAudioEvents eng s) = Playing
            \<and> sound_started (sound (ProcessAudioEvents eng s))
            \<and> current_track_index (ProcessAudioEvents eng s) = next_track_index s))
   \<and> (track_list s = [] \<longrightarrow> HandleNextTrack eng s = s)"
proof -
  have empty: "track_list s = [] \<longrightarrow> HandleNextTrack eng s = s"
    by (simp add: HandleNextTrack_def)
  have loaded: "HandleNextTrack eng t =
        t\<lparr>sound := \<lparr> sound_file = track_list t ! nat (next_track_index t),
                     sound_started = is_playing t, sound_volume = volume t \<rparr>,
          sound_initialized := True,
          current_track_index := next_track_index t\<rparr>"
    if "track_list t \<noteq> []" "fits_int (track_list t)"
      "eng (track_list t ! nat (next_track_index t)) = MA_SUCCESS" for t
    using next_loads_target [where eng = eng and s = t, OF that] by simp
  show ?thesis
  proof (intro conjI impI)
    assume a: "track_list s \<noteq> [] \<and> fits_int (track_list s)
      \<and> eng (track_list s ! nat (next_track_index s)) = MA_SUCCESS"
    then have eq: "HandleNextTrack eng s =
        s\<lparr>sound := \<lparr> sound_file = track_list s ! nat (next_track_index s),
                     sound_started = is_playing s, sound_volume = volume s \<rparr>,
          sound_initialized := True,
          current_track_index := next_track_index s\<rparr>"
      using loaded [of s] by simp
    show "HandleNextTrack eng s =
        s\<lparr>sound := \<lparr> sound_file = track_list s ! nat (next_track_index s),
                     sound_started = is_playing s, sound_volume = volume s \<rparr>,
          sound_initialized := True,
          current_track_index := next_track_index s\<rparr>"
      by (rule eq)
    show "status (HandleNextTrack eng s) = (if status s = Playing then Playing else Paused)"
      by (simp add: eq status_def)
    let ?c = "s\<lparr>track_ended_flag := False\<rparr>"
    assume b: "track_ended_flag s \<and> status s = Playing"
    have c: "track_list ?c \<noteq> []" "fits_int (track_list ?c)"
      "eng (track_list ?c ! nat (next_track_index ?c)) = MA_SUCCESS"
      using a by (simp_all add: next_track_index_def)
    have drained: "ProcessAudioEvents eng s = HandleNextTrack eng ?c"
      using b by (simp add: ProcessAudioEvents_def status_def Let_def split: if_splits)
    have playing: "is_playing s"
      using b by (simp add: status_def split: if_splits)
    show "status (ProcessAudioEvents eng s) = Playing"
      and "sound_started (sound (ProcessAudioEvents eng s))"
      and "current_track_index (ProcessAudioEvents eng s) = next_track_index s"
      using playing by (simp_all add: drained loaded [OF c] status_def next_track_index_def)
  next
    assume "track_list s = []"
    then show "HandleNextTrack eng s = s" using empty by simp
  qed
qed

theorem advance_loads_next_track_witness:
  "track_list example_stopped \<noteq> [] \<and> fits_int (track_list example_stopped)
   \<and> accept_all (track_list example_stopped ! nat (next_track_index example_stopped))
       = MA_SUCCESS
   \<and> status example_stopped = Stopped
   \<and> status (HandleNextTrack accept_all example_stopped) = Paused
   \<and> current_track_index (HandleNextTrack accept_all example_stopped) = 1
   \<and> track_ended_flag (sound_end_callback example_playing)
   \<and> status (sound_end_callback example_playing) = Playing
   \<and> status (ProcessAudioEvents accept_all (sound_end_callback example_playing)) = Playing
   \<and> current_track_index (ProcessAudioEvents accept_all (sound_end_callback example_playing))
       = 1
   \<and> track_list main_startup = []
   \<and> HandleNextTrack accept_all main_startup = main_startup"
proof -
  have stopped: "track_list example_stopped \<noteq> [] \<and> fits_int (track_list example_stopped)
      \<and> accept_all (track_list example_stopped ! nat (next_track_index example_stopped))
          = MA_SUCCESS"
    and stopped_status: "status example_stopped = Stopped"
    by code_simp+
  have ended: "track_list (sound_end_callback example_playing) \<noteq> []
      \<and> fits_int (track_list (sound_end_callback example_playing))
      \<and> accept_all (track_list (sound_end_callback example_playing)
            ! nat (next_track_index (sound_end_callback example_playing))) = MA_SUCCESS"
    and ended_status: "track_ended_flag (sound_end_callback example_playing)
      \<and> status (sound_end_callback example_playing) = Playing"
    by code_simp+
  have empty: "track_list main_startup = []"
    by code_simp
  have moved: "current_track_index (HandleNextTrack accept_all example_stopped) = 1"
    "current_track_index (ProcessAudioEvents accept_all (sound_end_callback example_playing))
       = 1"
    by code_simp+
  from advance_loads_next_track [of example_stopped accept_all] stopped
  have "status (HandleNextTrack accept_all example_stopped)
      = (if status example_stopped = Playing then Playing else Paused)"
    by blast
  with stopped_status have a: "status (HandleNextTrack accept_all example_stopped) = Paused"
    by simp
  from advance_loads_next_track [of "sound_end_callback example_playing" accept_all]
    ended ended_status
  have b: "status (ProcessAudioEvents accept_all (sound_end_callback example_playing)) = Playing"
    by blast
  from advance_loads_next_track [of main_startup accept_all] empty
  have c: "HandleNextTrack accept_all main_startup = main_startup"
    by blast
  show ?thesis
    using stopped stopped_status ended_status empty moved a b c by simp
qed

subsection \<open>Refresh completion\<close>







subsection \<open>Invariants of a session\<close>

lemma playing_bound_step:
  assumes "is_playing s \<longrightarrow> sound_initialized s"
  shows "is_playing (step ev s) \<longrightarrow> sound_initialized (step ev s)"
proof -
  have load: "is_playing (snd (InitializeAndPlaySound eng t i b))
      \<longrightarrow> sound_initialized (snd (InitializeAndPlaySound eng t i b))" for eng t i b
    using load_playing_bound by blast
  have play_pause: "is_playing (HandlePlayPause eng t) \<longrightarrow> sound_initialized (HandlePlayPause eng t)"
    if "is_playing t \<longrightarrow> sound_initialized t" for eng t
    using that load by (auto simp add: HandlePlayPause_def Let_def)
  have "next": "is_playing (HandleNextTrack eng t) \<longrightarrow> sound_initialized (HandleNextTrack eng t)"
    if "is_playing t \<longrightarrow> sound_initialized t" for eng t
    using that load by (auto simp add: HandleNextTrack_def Let_def)
  have vol: "is_playing (HandleVolumeChange t v) \<longrightarrow> sound_initialized (HandleVolumeChange t v)"
    if "is_playing t \<longrightarrow> sound_initialized t" for t v
    using that by (auto simp add: HandleVolumeChange_def Let_def)
  have trigger: "is_playing (TriggerLoadMusicFilesAsync t b)
      \<longrightarrow> sound_initialized (TriggerLoadMusicFilesAsync t b)"
    if "is_playing t \<longrightarrow> sound_initialized t" for t b
    using that by (auto simp add: TriggerLoadMusicFilesAsync_def Let_def)
  have completion: "is_playing (ProcessAsyncMusicLoadCompletion eng t)
      \<longrightarrow> sound_initialized (ProcessAsyncMusicLoadCompletion eng t)"
    if "is_playing t \<longrightarrow> sound_initialized t" for eng t
    using that load by (auto simp add: ProcessAsyncMusicLoadCompletion_def Let_def split: option.split)
  have audio: "is_playing (ProcessAudioEvents eng t)
      \<longrightarrow> sound_initialized (ProcessAudioEvents eng t)"
    if "is_playing t \<longrightarrow> sound_initialized t" for eng t
    using that "next" [of "t\<lparr>track_ended_flag := False\<rparr>" eng]
    by (auto simp add: ProcessAudioEvents_def Let_def)
  have render: "is_playing (RenderUI eng ui t) \<longrightarrow> sound_initialized (RenderUI eng ui t)"
    if "is_playing t \<longrightarrow> sound_initialized t" for eng ui t
  proof -
    define a where "a = (if refresh_clicked ui \<and> \<not> is_loading_music t
              then TriggerLoadMusicFilesAsync t False else t)"
    define b where "b = (if current_track_index a < 0
                 \<or> current_track_index a \<ge> static_cast_int (int (length (track_list a)))
              then UninitializeCurrentSound
                     (if is_playing (a\<lparr>current_track_index := 0\<rparr>)
                      then StopCurrentSound (a\<lparr>current_track_index := 0\<rparr>)
                      else a\<lparr>current_track_index := 0\<rparr>)
              else a)"
    define c where "c = (if play_pause_clicked ui then HandlePlayPause eng b else b)"
    define d where "d = (if next_clicked ui then HandleNextTrack eng c else c)"
    define e where "e = (case volume_slider ui of
                           Some v \<Rightarrow> HandleVolumeChange d v | None \<Rightarrow> d)"
    have eq: "RenderUI eng ui t =
        (if track_list a \<noteq> []
         then (if current_track_index b \<ge> 0
                  \<and> current_track_index b < static_cast_int (int (length (track_list b)))
               then e else b)
         else a)"
      unfolding RenderUI_def Let_def a_def b_def c_def d_def e_def by (rule refl)
    have inv_a: "is_playing a \<longrightarrow> sound_initialized a"
      using that trigger [of t False] by (simp add: a_def)
    have inv_b: "is_playing b \<longrightarrow> sound_initialized b"
      using inv_a by (auto simp add: b_def UninitializeCurrentSound_def StopCurrentSound_def)
    have inv_c: "is_playing c \<longrightarrow> sound_initialized c"
      using inv_b play_pause [of b eng] by (simp add: c_def)
    have inv_d: "is_playing d \<longrightarrow> sound_initialized d"
      using inv_c "next" [of c eng] by (simp add: d_def)
    have inv_e: "is_playing e \<longrightarrow> sound_initialized e"
      using inv_d vol [of d] by (simp add: e_def split: option.split)
    show ?thesis
      unfolding eq using inv_a inv_b inv_e by simp
  qed
  show ?thesis
  proof (cases ev)
    case (Tick eng ui)
    then show ?thesis
      using render [OF audio [OF completion [OF assms]]] by (simp add: main_loop_tick_def)
  next
    case (ScanFinished fs)
    then show ?thesis using assms by (auto simp add: scan_finishes_def)
  next
    case SoundStopped
    then show ?thesis using assms by (auto simp add: engine_stops_sound_def)
  next
    case EndCallback
    then show ?thesis using assms by (auto simp add: sound_end_callback_def)
  qed (use assms play_pause "next" vol trigger completion audio render in simp_all)
qed

lemma playing_bound_run:
  "is_playing s \<longrightarrow> sound_initialized s \<Longrightarrow>
     is_playing (run events s) \<longrightarrow> sound_initialized (run events s)"
proof (induction events arbitrary: s)
  case Nil
  then show ?case by (simp add: run_def)
next
  case (Cons ev events)
  from Cons.IH [OF playing_bound_step [OF Cons.prems, of ev]] show ?case
    by (simp add: run_def)
qed

text \<open>
  One half of the invariant holds: in every state a session can reach from startup,
  by any list of events, \<open>is_playing\<close> implies that a sound is bound.
\<close>

lemma playing_implies_sound_bound:
  "is_playing (run events main_startup) \<longrightarrow> sound_initialized (run events main_startup)"
proof -
  have "is_playing main_startup \<longrightarrow> sound_initialized main_startup"
    by (simp add: main_startup_def TriggerLoadMusicFilesAsync_def initial_state_def)
  then show ?thesis
    by (rule playing_bound_run)
qed

text \<open>
  C1 does not hold of the code after a refresh completion.  The specification ends
  that transition Stopped when playback is not resumed, and releases the sound when
  the catalog is replaced by an empty result.  \<open>ProcessAsyncMusicLoadCompletion\<close>
  resets the index and clears \<open>is_playing\<close> but neither stops nor releases the
  sound, unlike the two other places that reset the session (the refresh request and
  the index clamp of \<open>RenderUI\<close>).  If the user pressed Play while the worker was
  scanning, the sound loaded then is still bound and still sounding after the
  completion, with an empty catalog in the first session below and with the old
  catalog in the second.  Read off the flags, the state is one the code cannot tell
  from Paused.
\<close>

theorem completion_leaves_sound_bound:
  "track_list example_play_during_scan_emptied = []
   \<and> \<not> is_loading_music example_play_during_scan_emptied
   \<and> \<not> is_playing example_play_during_scan_emptied
   \<and> sound_initialized example_play_during_scan_emptied
   \<and> sound_started (sound example_play_during_scan_emptied)
   \<and> sound_file (sound example_play_during_scan_emptied) = ''./music/a.mp3''
   \<and> track_list example_play_during_scan = [''./music/a.mp3'', ''./music/B.WAV'']
   \<and> \<not> is_loading_music example_play_during_scan
   \<and> \<not> is_playing example_play_during_scan
   \<and> sound_initialized example_play_during_scan
   \<and> sound_started (sound example_play_during_scan)"
  by code_simp

subsection \<open>The startup scan\<close>

lemma render_while_loading_empty:
  "is_loading_music t \<Longrightarrow> track_list t = [] \<Longrightarrow> RenderUI eng ui t = t"
  unfolding RenderUI_def Let_def by simp

lemma initial_load_pending_step:
  assumes "initial_load_pending s" and "\<not> polls ev"
  shows "initial_load_pending (step ev s)"
proof (cases ev)
  case (PlayPauseClicked eng)
  then show ?thesis using assms by (simp add: initial_load_pending_def HandlePlayPause_def)
next
  case (NextClicked eng)
  then show ?thesis using assms by (simp add: initial_load_pending_def HandleNextTrack_def)
next
  case (VolumeChanged v)
  then show ?thesis
    using assms by (simp add: initial_load_pending_def HandleVolumeChange_def Let_def)
next
  case RefreshRequested
  then show ?thesis
    using assms by (simp add: initial_load_pending_def TriggerLoadMusicFilesAsync_def)
next
  case (PollCompletion eng)
  then show ?thesis using assms by simp
next
  case (PollAudio eng)
  then show ?thesis
    using assms by (simp add: initial_load_pending_def ProcessAudioEvents_def Let_def)
next
  case (Rendered eng ui)
  then show ?thesis
    using assms by (simp add: initial_load_pending_def render_while_loading_empty)
next
  case (Tick eng ui)
  then show ?thesis using assms by simp
next
  case (ScanFinished fs)
  then show ?thesis
    using assms by (simp add: initial_load_pending_def scan_finishes_def split: sum.split)
next
  case SoundStopped
  then show ?thesis
    using assms by (simp add: initial_load_pending_def engine_stops_sound_def)
next
  case EndCallback
  then show ?thesis
    using assms by (simp add: initial_load_pending_def sound_end_callback_def)
qed

lemma initial_load_pending_run:
  "initial_load_pending s \<Longrightarrow> \<forall>ev \<in> set events. \<not> polls ev \<Longrightarrow>
     initial_load_pending (run events s)"
proof (induction events arbitrary: s)
  case Nil
  then show ?case by (simp add: run_def)
next
  case (Cons ev events)
  have "initial_load_pending (step ev s)"
    using Cons.prems by (intro initial_load_pending_step) simp_all
  from Cons.IH [OF this] Cons.prems(2) show ?case
    by (simp add: run_def)
qed

lemma initial_load_pending_startup: "initial_load_pending main_startup"
  by (simp add: initial_load_pending_def main_startup_def TriggerLoadMusicFilesAsync_def
      initial_state_def)

text \<open>
  C10.  \<open>main\<close> triggers the first scan with \<open>is_initial_load\<close> true, which captures
  neither a playing state nor a track.  Whatever happens before the scan is applied
  (clicks, volume changes, refresh requests, audio polls, rendered frames, the
  worker finishing, engine events), applying it leaves the session Stopped at index 0
  with no sound bound, and the catalog is the scan result, whatever it is (empty if
  the worker threw); a poll while the worker still runs changes nothing.
\<close>

theorem initial_scan_never_starts_playback:
  assumes "\<forall>ev \<in> set events. \<not> polls ev"
  shows "\<not> was_playing_before_async_load (run events main_startup)
         \<and> playing_song_before_async_load (run events main_startup) = []
         \<and> status (ProcessAsyncMusicLoadCompletion eng (run events main_startup)) = Stopped
         \<and> current_track_index (ProcessAsyncMusicLoadCompletion eng (run events main_startup))
             = 0
         \<and> \<not> sound_initialized (ProcessAsyncMusicLoadCompletion eng (run events main_startup))
         \<and> (music_load_future (run events main_startup) = Ready tracks \<longrightarrow>
              track_list (ProcessAsyncMusicLoadCompletion eng (run events main_startup)) = tracks
              \<and> \<not> is_loading_music
                    (ProcessAsyncMusicLoadCompletion eng (run events main_startup)))
         \<and> (music_load_future (run events main_startup) = Thrown \<longrightarrow>
              track_list (ProcessAsyncMusicLoadCompletion eng (run events main_startup)) = []
              \<and> \<not> is_loading_music
                    (ProcessAsyncMusicLoadCompletion eng (run events main_startup)))
         \<and> (music_load_future (run events main_startup) = Running \<longrightarrow>
              ProcessAsyncMusicLoadCompletion eng (run events main_startup)
                = run events main_startup)"
proof -
  define s where "s = run events main_startup"
  have "initial_load_pending s"
    unfolding s_def using initial_load_pending_startup assms by (rule initial_load_pending_run)
  then show ?thesis
    unfolding s_def [symmetric]
    by (auto simp add: initial_load_pending_def ProcessAsyncMusicLoadCompletion_def Let_def
        status_def)
qed

theorem initial_scan_never_starts_playback_witness:
  "filter polls [PlayPauseClicked accept_all, NextClicked accept_all, RefreshRequested,
                 EndCallback, PollAudio accept_all, ScanFinished example_directory] = []
   \<and> music_load_future
        (run [PlayPauseClicked accept_all, NextClicked accept_all, RefreshRequested,
              EndCallback, PollAudio accept_all, ScanFinished example_directory] main_startup)
       = Ready [''./music/a.mp3'', ''./music/B.WAV'']
   \<and> status (ProcessAsyncMusicLoadCompletion accept_all
        (run [PlayPauseClicked accept_all, NextClicked accept_all, RefreshRequested,
              EndCallback, PollAudio accept_all, ScanFinished example_directory] main_startup))
       = Stopped
   \<and> current_track_index (ProcessAsyncMusicLoadCompletion accept_all
        (run [PlayPauseClicked accept_all, NextClicked accept_all, RefreshRequested,
              EndCallback, PollAudio accept_all, ScanFinished example_directory] main_startup))
       = 0
   \<and> track_list (ProcessAsyncMusicLoadCompletion accept_all
        (run [PlayPauseClicked accept_all, NextClicked accept_all, RefreshRequested,
              EndCallback, PollAudio accept_all, ScanFinished example_directory] main_startup))
       = [''./music/a.mp3'', ''./music/B.WAV'']"
proof -
  let ?events = "[PlayPauseClicked accept_all, NextClicked accept_all, RefreshRequested,
                  EndCallback, PollAudio accept_all, ScanFinished example_directory]"
  have quiet: "\<forall>ev \<in> set ?events. \<not> polls ev"
    by simp
  have ready: "music_load_future (run ?events main_startup)
      = Ready [''./music/a.mp3'', ''./music/B.WAV'']"
    by code_simp
  from initial_scan_never_starts_playback
    [where events = ?events and eng = accept_all
       and tracks = "[''./music/a.mp3'', ''./music/B.WAV'']", OF quiet] ready
  have "status (ProcessAsyncMusicLoadCompletion accept_all (run ?events main_startup)) = Stopped
      \<and> current_track_index (ProcessAsyncMusicLoadCompletion accept_all
            (run ?events main_startup)) = 0
      \<and> track_list (ProcessAsyncMusicLoadCompletion accept_all (run ?events main_startup))
          = [''./music/a.mp3'', ''./music/B.WAV'']"
    by blast
  moreover have "filter polls ?events = []"
    by simp
  ultimately show ?thesis
    using ready by blast
qed

subsection \<open>Facts about the scanner\<close>

lemma tolower_literals:
  "map tolower ''.mp3'' = ''.mp3''" "map tolower ''.wav'' = ''.wav''"
  by code_simp+

lemma playable_iff:
  "playable entry \<longleftrightarrow>
     entry_is_regular_file entry = Returns True
     \<and> (map tolower (entry_extension entry) = ''.mp3''
        \<or> map tolower (entry_extension entry) = ''.wav'')"
  by (simp only: playable_def equal_ignoring_case_def tolower_literals)

lemma scan_entries_readable:
  "\<forall>entry \<in> set entries. readable entry \<Longrightarrow>
     scan_entries (map Entry entries @ rest) found =
       scan_entries rest (found @ map entry_path (filter playable entries))"
proof (induction entries arbitrary: found)
  case Nil
  then show ?case by simp
next
  case (Cons entry entries)
  then have rest: "\<forall>entry \<in> set entries. readable entry"
    and this_one: "entry_is_regular_file entry \<noteq> Throws"
    by (simp_all add: readable_def)
  from this_one obtain regular where regular: "entry_is_regular_file entry = Returns regular"
    by (cases "entry_is_regular_file entry") simp_all
  show ?case
  proof (cases "playable entry")
    case True
    then have "scan_entries (map Entry (entry # entries) @ rest) found
        = scan_entries (map Entry entries @ rest) (found @ [entry_path entry])"
      by (simp only: playable_iff list.map append_Cons scan_entries.simps Let_def)
         simp
    then show ?thesis
      using Cons.IH [OF rest, of "found @ [entry_path entry]"] True by simp
  next
    case False
    then have "scan_entries (map Entry (entry # entries) @ rest) found
        = scan_entries (map Entry entries @ rest) found"
      using regular by (cases regular) (auto simp add: playable_iff Let_def)
    then show ?thesis
      using Cons.IH [OF rest, of found] False by simp
  qed
qed

lemma scan_entries_stops:
  "failing = IterError \<or> (\<exists>entry. failing = Entry entry \<and> \<not> readable entry) \<Longrightarrow>
     scan_entries (failing # rest) found = found"
  by (auto simp add: readable_def)

text \<open>
  C8, as stated, fails in its last part: the scanner can hand an error to its caller.
  \<^verbatim>\<open>std::filesystem::exists(music_dir_path)\<close> is called outside both \<^verbatim>\<open>try\<close> blocks,
  and that overload throws \<^verbatim>\<open>filesystem_error\<close> when the status of the path cannot be
  determined (by the C++ standard it is \<^verbatim>\<open>exists(status(p))\<close>, and \<^verbatim>\<open>status(p)\<close> throws
  on any error other than the path not existing).  For such a directory the worker
  does not return an empty sequence; the exception leaves it.
\<close>

theorem scan_raises_counterexample:
  "ScanMusicDirectoryWorker example_unreadable_directory = Inl filesystem_error"
  by code_simp

text \<open>
  C8, amended.  Whenever the existence check answers, the scanner returns and does
  not raise.  If the directory exists or could be made and the enumeration meets no
  error, the result is exactly the paths of the entries that are regular files with
  an extension equal to \<^verbatim>\<open>.mp3\<close> or \<^verbatim>\<open>.wav\<close> ignoring case, in the order of the
  enumeration.  If the enumeration fails at some point (the iterator throws, or an
  entry cannot be examined), the result is what was collected from the entries
  before that point.  If the directory cannot be created, or cannot be opened for
  enumeration, the result is empty.  If the existence check itself throws, the
  exception leaves the worker; \<open>ProcessAsyncMusicLoadCompletion\<close> catches it when it
  takes the result, and the catalog becomes empty.
\<close>

theorem scan_returns_playable_files:
  "(fs_exists fs \<noteq> Throws \<longrightarrow> (\<exists>tracks. ScanMusicDirectoryWorker fs = Inr tracks))
   \<and> (fs_exists fs \<noteq> Throws
        \<and> (fs_exists fs = Returns False \<longrightarrow> fs_create_directories fs \<noteq> Throws)
        \<and> (\<forall>entry \<in> set entries. readable entry)
        \<and> fs_directory_iterator fs = map Entry entries \<longrightarrow>
        ScanMusicDirectoryWorker fs = Inr (map entry_path (filter playable entries)))
   \<and> (fs_exists fs \<noteq> Throws
        \<and> (fs_exists fs = Returns False \<longrightarrow> fs_create_directories fs \<noteq> Throws)
        \<and> (\<forall>entry \<in> set entries. readable entry)
        \<and> fs_directory_iterator fs = map Entry entries @ failing # rest
        \<and> (failing = IterError \<or> (\<exists>entry. failing = Entry entry \<and> \<not> readable entry)) \<longrightarrow>
        ScanMusicDirectoryWorker fs = Inr (map entry_path (filter playable entries)))
   \<and> (fs_exists fs = Returns False \<and> fs_create_directories fs = Throws \<longrightarrow>
        ScanMusicDirectoryWorker fs = Inr [])
   \<and> (fs_exists fs \<noteq> Throws \<and> fs_directory_iterator fs = IterError # rest \<longrightarrow>
        ScanMusicDirectoryWorker fs = Inr [])
   \<and> (fs_exists fs = Throws \<longrightarrow>
        ScanMusicDirectoryWorker fs = Inl filesystem_error
        \<and> (is_loading_music s \<and> music_load_future s = Running \<longrightarrow>
             track_list (ProcessAsyncMusicLoadCompletion eng (scan_finishes fs s)) = []))"
proof -
  have total: "fs_exists fs \<noteq> Throws \<longrightarrow> (\<exists>tracks. ScanMusicDirectoryWorker fs = Inr tracks)"
    by (simp add: ScanMusicDirectoryWorker_def split: fs_result.split bool.split)
  have loop: "ScanMusicDirectoryWorker fs = Inr (scan_entries (fs_directory_iterator fs) [])"
    if "fs_exists fs \<noteq> Throws"
      "fs_exists fs = Returns False \<longrightarrow> fs_create_directories fs \<noteq> Throws"
    using that by (auto simp add: ScanMusicDirectoryWorker_def split: fs_result.split bool.split)
  have complete: "fs_exists fs \<noteq> Throws
        \<and> (fs_exists fs = Returns False \<longrightarrow> fs_create_directories fs \<noteq> Throws)
        \<and> (\<forall>entry \<in> set entries. readable entry)
        \<and> fs_directory_iterator fs = map Entry entries \<longrightarrow>
        ScanMusicDirectoryWorker fs = Inr (map entry_path (filter playable entries))"
    using loop scan_entries_readable [of entries "[]" "[]"] by simp
  have partial: "fs_exists fs \<noteq> Throws
        \<and> (fs_exists fs = Returns False \<longrightarrow> fs_create_directories fs \<noteq> Throws)
        \<and> (\<forall>entry \<in> set entries. readable entry)
        \<and> fs_directory_iterator fs = map Entry entries @ failing # rest
        \<and> (failing = IterError \<or> (\<exists>entry. failing = Entry entry \<and> \<not> readable entry)) \<longrightarrow>
        ScanMusicDirectoryWorker fs = Inr (map entry_path (filter playable entries))"
    using loop scan_entries_readable [of entries "failing # rest" "[]"]
      scan_entries_stops [of failing rest "map entry_path (filter playable entries)"]
    by simp
  have no_create: "fs_exists fs = Returns False \<and> fs_create_directories fs = Throws \<longrightarrow>
        ScanMusicDirectoryWorker fs = Inr []"
    by (simp add: ScanMusicDirectoryWorker_def)
  have no_read: "fs_exists fs \<noteq> Throws \<and> fs_directory_iterator fs = IterError # rest \<longrightarrow>
        ScanMusicDirectoryWorker fs = Inr []"
    by (simp add: ScanMusicDirectoryWorker_def split: fs_result.split bool.split)
  have raised: "fs_exists fs = Throws \<longrightarrow>
        ScanMusicDirectoryWorker fs = Inl filesystem_error
        \<and> (is_loading_music s \<and> music_load_future s = Running \<longrightarrow>
             track_list (ProcessAsyncMusicLoadCompletion eng (scan_finishes fs s)) = [])"
    by (simp add: ScanMusicDirectoryWorker_def scan_finishes_def
        ProcessAsyncMusicLoadCompletion_def Let_def split: option.split)
  show ?thesis
    using total complete partial no_create no_read raised by blast
qed

theorem scan_returns_playable_files_witness:
  "ScanMusicDirectoryWorker example_directory = Inr [''./music/a.mp3'', ''./music/B.WAV'']
   \<and> ScanMusicDirectoryWorker example_failing_directory = Inr [''./music/a.mp3'']
   \<and> fs_exists example_missing_directory = Returns False
   \<and> fs_create_directories example_missing_directory = Throws
   \<and> ScanMusicDirectoryWorker example_missing_directory = Inr []
   \<and> fs_exists example_unreadable_directory = Throws
   \<and> ScanMusicDirectoryWorker example_unreadable_directory = Inl filesystem_error
   \<and> is_loading_music main_startup \<and> music_load_future main_startup = Running
   \<and> track_list (ProcessAsyncMusicLoadCompletion accept_all
         (scan_finishes example_unreadable_directory main_startup)) = []"
proof -
  let ?a = "\<lparr> entry_path = ''./music/a.mp3'', entry_is_regular_file = Returns True,
              entry_extension = ''.mp3'' \<rparr>"
  let ?notes = "\<lparr> entry_path = ''./music/notes.txt'', entry_is_regular_file = Returns True,
              entry_extension = ''.txt'' \<rparr>"
  let ?live = "\<lparr> entry_path = ''./music/live.wav'', entry_is_regular_file = Returns False,
              entry_extension = ''.wav'' \<rparr>"
  let ?b = "\<lparr> entry_path = ''./music/B.WAV'', entry_is_regular_file = Returns True,
              entry_extension = ''.WAV'' \<rparr>"
  let ?cover = "\<lparr> entry_path = ''./music/cover.jpg'', entry_is_regular_file = Returns True,
              entry_extension = ''.jpg'' \<rparr>"
  let ?locked = "\<lparr> entry_path = ''./music/locked.mp3'', entry_is_regular_file = Throws,
              entry_extension = ''.mp3'' \<rparr>"
  let ?z = "\<lparr> entry_path = ''./music/z.wav'', entry_is_regular_file = Returns True,
              entry_extension = ''.wav'' \<rparr>"
  have whole: "fs_exists example_directory \<noteq> Throws
      \<and> (fs_exists example_directory = Returns False \<longrightarrow>
           fs_create_directories example_directory \<noteq> Throws)
      \<and> (\<forall>entry \<in> set [?a, ?notes, ?live, ?b]. readable entry)
      \<and> fs_directory_iterator example_directory = map Entry [?a, ?notes, ?live, ?b]"
    by code_simp
  have whole_kept: "map entry_path (filter playable [?a, ?notes, ?live, ?b])
      = [''./music/a.mp3'', ''./music/B.WAV'']"
    by code_simp
  have part: "fs_exists example_failing_directory \<noteq> Throws
      \<and> (fs_exists example_failing_directory = Returns False \<longrightarrow>
           fs_create_directories example_failing_directory \<noteq> Throws)
      \<and> (\<forall>entry \<in> set [?a, ?cover]. readable entry)
      \<and> fs_directory_iterator example_failing_directory
          = map Entry [?a, ?cover] @ Entry ?locked # [Entry ?z]"
    by code_simp
  have locked: "Entry ?locked = IterError
      \<or> (\<exists>entry. Entry ?locked = Entry entry \<and> \<not> readable entry)"
    by (simp add: readable_def)
  have part_kept: "map entry_path (filter playable [?a, ?cover]) = [''./music/a.mp3'']"
    by code_simp
  have missing: "fs_exists example_missing_directory = Returns False"
    "fs_create_directories example_missing_directory = Throws"
    by code_simp+
  have unreadable: "fs_exists example_unreadable_directory = Throws"
    by code_simp
  have loading: "is_loading_music main_startup" "music_load_future main_startup = Running"
    by code_simp+
  from scan_returns_playable_files
    [where fs = example_directory and entries = "[?a, ?notes, ?live, ?b]"] whole
  have r1: "ScanMusicDirectoryWorker example_directory
      = Inr (map entry_path (filter playable [?a, ?notes, ?live, ?b]))"
    by blast
  from scan_returns_playable_files
    [where fs = example_failing_directory and entries = "[?a, ?cover]"
       and failing = "Entry ?locked" and rest = "[Entry ?z]"] part locked
  have r2: "ScanMusicDirectoryWorker example_failing_directory
      = Inr (map entry_path (filter playable [?a, ?cover]))"
    by blast
  from scan_returns_playable_files [where fs = example_missing_directory] missing
  have r3: "ScanMusicDirectoryWorker example_missing_directory = Inr []"
    by blast
  from scan_returns_playable_files
    [where fs = example_unreadable_directory and s = main_startup and eng = accept_all]
    unreadable loading
  have r4: "ScanMusicDirectoryWorker example_unreadable_directory = Inl filesystem_error
      \<and> track_list (ProcessAsyncMusicLoadCompletion accept_all
            (scan_finishes example_unreadable_directory main_startup)) = []"
    by blast
  show ?thesis
    using r1 r2 r3 r4 whole_kept part_kept missing unreadable loading by simp
qed

end
